theory Spec2Isabelle
  imports Main
begin

section \<open>JavaScript values, errors and options\<close>

text \<open>
  The arguments of \<open>analyzeCodebase\<close> are untyped JavaScript values. The code only tests
  them for truthiness and with \<open>typeof\<close>, so a number is an integer or \<open>NaN\<close> (every
  other number is truthy like a non-zero integer) and \<open>JObj\<close> stands for any object.
\<close>

datatype jsval = JUndefined | JNull | JBool bool | JNum int | JNaN | JStr string | JObj

fun truthy :: "jsval \<Rightarrow> bool" where
  "truthy JUndefined = False"
| "truthy JNull = False"
| "truthy (JBool b) = b"
| "truthy (JNum n) = (n \<noteq> 0)"
| "truthy JNaN = False"
| "truthy (JStr s) = (s \<noteq> [])"
| "truthy JObj = True"

fun typeof :: "jsval \<Rightarrow> string" where
  "typeof JUndefined = ''undefined''"
| "typeof JNull = ''object''"
| "typeof (JBool b) = ''boolean''"
| "typeof (JNum n) = ''number''"
| "typeof JNaN = ''number''"
| "typeof (JStr s) = ''string''"
| "typeof JObj = ''object''"

text \<open>The characters of a value whose \<open>typeof\<close> is \<open>string\<close>; applied to no other value.\<close>

fun string_of :: "jsval \<Rightarrow> string" where
  "string_of (JStr s) = s"
| "string_of _ = []"

text \<open>
  A thrown value is an \<open>Error\<close> object: its class name and its message. The stack trace
  is a property of the object that the model does not spell out; the two console calls
  that print it carry the error itself.
\<close>

datatype js_error = JsError (name: string) (message: string)

definition new_Error :: "string \<Rightarrow> js_error" where
  "new_Error msg = JsError ''Error'' msg"

text \<open>
  The \<open>options\<close> argument. The parameter default \<open>options = {}\<close> applies to \<open>undefined\<close>
  only; a property that is absent reads as \<open>undefined\<close>, and so does any property of a
  primitive, which is the object with all three fields \<open>undefined\<close>. The field
  \<open>output_dir\<close> is the property \<open>output\<close>.
\<close>

record options =
  output_dir :: jsval
  model :: jsval
  verbose :: jsval

datatype options_arg = OptUndefined | OptNull | OptObj options

definition empty_options :: options where
  "empty_options = \<lparr>output_dir = JUndefined, model = JUndefined, verbose = JUndefined\<rparr>"

text \<open>Reading \<open>options.output\<close> (line 20): on \<open>null\<close> the engine throws a \<open>TypeError\<close>.\<close>

definition null_property_error :: js_error where
  "null_property_error =
     JsError ''TypeError'' (''Cannot read properties of null (reading '' @ [CHR 0x27] @ ''output'' @ [CHR 0x27] @ '')'')"

fun bind_options :: "options_arg \<Rightarrow> js_error + options" where
  "bind_options OptUndefined = Inr empty_options"
| "bind_options OptNull = Inl null_property_error"
| "bind_options (OptObj opts) = Inr opts"

section \<open>Observable events\<close>

text \<open>
  Console output is kept as one structured message per console call of the source,
  carrying the values that the call interpolates; the literal decoration is dropped.
  \<open>progress\<close> is the pair printed as \<open>[index + 1/files.length]\<close>.
\<close>

type_synonym progress = "nat \<times> nat"

datatype msg =
    MsgSearching string
  | MsgNoFiles
  | MsgHintPath
  | MsgHintCwd string
  | MsgFound nat
  | MsgFirstFew
  | MsgListItem nat string
  | MsgAndMore int
  | MsgProcessingVerbose progress string
  | MsgFullPath string
  | MsgProcessing progress string
  | MsgFileSize nat
  | MsgSendingToAI
  | MsgDocumented string
  | MsgFileErrorIndented progress string string
  | MsgStackFrame js_error
  | MsgFileError progress string string
  | MsgComplete
  | MsgSuccessCount nat
  | MsgErrorCount nat
  | MsgOutputDir string
  | MsgAnalysisFailed string
  | MsgStack js_error

text \<open>
  The trace of a run: console calls, and every call of a collaborator with its arguments
  and what it returned (\<open>Inl\<close> is the error it threw).
\<close>

datatype event =
    ConsoleLog msg
  | ConsoleWarn msg
  | ConsoleError msg
  | StdoutWrite msg
  | ExistsSync string bool
  | Glob string "js_error + string list"
  | ReadFileSync string "js_error + string"
  | CallGemini string "js_error + string"
  | WriteMarkdown string string jsval "js_error + string"
  | SetTimeout nat

section \<open>The collaborators\<close>

text \<open>
  The filesystem, \<open>glob\<close>, the AI client (\<open>aiEngine.js\<close>), the markdown writer
  (\<open>writer.js\<close>) and the timer are outside \<open>analyzer.js\<close>: they are parameters, acting on
  a world \<open>'w\<close> of their own, so that what a call returns may depend on everything that
  happened before it. Node's \<open>path\<close> functions are total on strings; \<open>path.resolve\<close>
  throws \<open>ERR_INVALID_ARG_TYPE\<close> on anything else.
\<close>

record 'w env =
  fs_existsSync :: "string \<Rightarrow> 'w \<Rightarrow> bool \<times> 'w"
  glob :: "string \<Rightarrow> 'w \<Rightarrow> (js_error + string list) \<times> 'w"
  fs_readFileSync :: "string \<Rightarrow> 'w \<Rightarrow> (js_error + string) \<times> 'w"
  callGemini :: "string \<Rightarrow> 'w \<Rightarrow> (js_error + string) \<times> 'w"
  writeMarkdown :: "string \<Rightarrow> string \<Rightarrow> jsval \<Rightarrow> 'w \<Rightarrow> (js_error + string) \<times> 'w"
  setTimeout :: "nat \<Rightarrow> 'w \<Rightarrow> 'w"
  path_relative :: "string \<Rightarrow> string \<Rightarrow> string"
  path_resolve :: "string \<Rightarrow> string"
  process_cwd :: string
  ERR_INVALID_ARG_TYPE :: "jsval \<Rightarrow> js_error"

fun path_resolve_js :: "'w env \<Rightarrow> jsval \<Rightarrow> js_error + string" where
  "path_resolve_js env (JStr s) = Inr (path_resolve env s)"
| "path_resolve_js env v = Inl (ERR_INVALID_ARG_TYPE env v)"

section \<open>The state of a run\<close>

text \<open>
  \<open>successCount\<close> and \<open>errorCount\<close> are the two counters of lines 58 and 59 (zero until
  the loop starts), \<open>trace\<close> is what the run has done so far, oldest event first.
\<close>

record 'w run =
  successCount :: nat
  errorCount :: nat
  trace :: "event list"
  world :: 'w

definition emits :: "event list \<Rightarrow> 'w run \<Rightarrow> 'w run" where
  "emits es s = s\<lparr>trace := trace s @ es\<rparr>"

definition call :: "('w \<Rightarrow> 'a \<times> 'w) \<Rightarrow> ('a \<Rightarrow> event) \<Rightarrow> 'w run \<Rightarrow> 'a \<times> 'w run" where
  "call f ev s = (case f (world s) of (r, w) \<Rightarrow> (r, emits [ev r] (s\<lparr>world := w\<rparr>)))"

definition sleep :: "'w env \<Rightarrow> nat \<Rightarrow> 'w run \<Rightarrow> 'w run" where
  "sleep env ms s = emits [SetTimeout ms] (s\<lparr>world := setTimeout env ms (world s)\<rparr>)"

section \<open>The prompt (lines 80 to 90)\<close>

definition instruction_template :: string where
  "instruction_template =
     ''Generate comprehensive documentation for the following JavaScript file.'' @ [CHR 0x0A] @
     ''Include:'' @ [CHR 0x0A] @
     ''1. File purpose and functionality'' @ [CHR 0x0A] @
     ''2. Key functions/classes with descriptions'' @ [CHR 0x0A] @
     ''3. Inputs/outputs'' @ [CHR 0x0A] @
     ''4. Dependencies'' @ [CHR 0x0A] @
     ''5. Any important notes or warnings'' @ [CHR 0x0A] @
     [CHR 0x0A] @
     ''File: ''"

definition build_prompt :: "string \<Rightarrow> string \<Rightarrow> string" where
  "build_prompt relativePath fileContent =
     instruction_template @ relativePath @ [CHR 0x0A, CHR 0x0A] @ fileContent"

section \<open>Processing one file (lines 61 to 115)\<close>

text \<open>The \<open>try\<close> block of lines 65 to 99; \<open>Inl\<close> is the exception that leaves it.\<close>

definition try_file ::
  "'w env \<Rightarrow> options \<Rightarrow> string \<Rightarrow> progress \<Rightarrow> string \<Rightarrow> 'w run \<Rightarrow> (js_error + unit) \<times> 'w run" where
  "try_file env opts relativePath progress file s0 =
     (let s1 = (if truthy (verbose opts)
                then emits [ConsoleLog (MsgProcessingVerbose progress relativePath),
                            ConsoleLog (MsgFullPath (path_resolve env file))] s0
                else emits [StdoutWrite (MsgProcessing progress relativePath)] s0)
      in case call (fs_readFileSync env file) (ReadFileSync file) s1 of
           (Inl error, s2) \<Rightarrow> (Inl error, s2)
         | (Inr fileContent, s2) \<Rightarrow>
             (let s3 = (if truthy (verbose opts)
                        then emits [ConsoleLog (MsgFileSize (length fileContent)),
                                    ConsoleLog MsgSendingToAI] s2
                        else s2);
                  prompt = build_prompt relativePath fileContent
              in case call (callGemini env prompt) (CallGemini prompt) s3 of
                   (Inl error, s4) \<Rightarrow> (Inl error, s4)
                 | (Inr documentation, s4) \<Rightarrow>
                     (case call (writeMarkdown env file documentation (output_dir opts))
                                (WriteMarkdown file documentation (output_dir opts)) s4 of
                        (Inl error, s5) \<Rightarrow> (Inl error, s5)
                      | (Inr outputPath, s5) \<Rightarrow>
                          (let s6 = (if truthy (verbose opts)
                                     then emits [ConsoleLog (MsgDocumented
                                            (path_relative env (process_cwd env) outputPath))] s5
                                     else s5)
                           in (Inr (), s6\<lparr>successCount := successCount s6 + 1\<rparr>)))))"

text \<open>The \<open>catch\<close> block of lines 100 to 109.\<close>

definition catch_file ::
  "options \<Rightarrow> string \<Rightarrow> progress \<Rightarrow> js_error \<Rightarrow> 'w run \<Rightarrow> 'w run" where
  "catch_file opts relativePath progress error s =
     (let s1 = s\<lparr>errorCount := errorCount s + 1\<rparr>
      in if truthy (verbose opts)
         then emits [ConsoleError (MsgFileErrorIndented progress relativePath (message error)),
                     ConsoleError (MsgStackFrame error)] s1
         else emits [ConsoleError (MsgFileError progress relativePath (message error))] s1)"

text \<open>The \<open>try\<close> statement of lines 65 to 109 as a whole.\<close>

definition process_file ::
  "'w env \<Rightarrow> options \<Rightarrow> string \<Rightarrow> progress \<Rightarrow> string \<Rightarrow> 'w run \<Rightarrow> 'w run" where
  "process_file env opts relativePath progress file s =
     (case try_file env opts relativePath progress file s of
        (Inr u, s') \<Rightarrow> s'
      | (Inl error, s') \<Rightarrow> catch_file opts relativePath progress error s')"

text \<open>One iteration of the loop: lines 62 to 114.\<close>

definition loop_body ::
  "'w env \<Rightarrow> string \<Rightarrow> options \<Rightarrow> string list \<Rightarrow> nat \<Rightarrow> string \<Rightarrow> 'w run \<Rightarrow> 'w run" where
  "loop_body env folderPath opts files index file s =
     (let relativePath = path_relative env folderPath file;
          progress = (index + 1, length files);
          s1 = process_file env opts relativePath progress file s
      in if int index < int (length files) - 1 then sleep env 500 s1 else s1)"

text \<open>
  The loop \<open>for (const [index, file] of files.entries())\<close>: \<open>files\<close> is the whole list,
  \<open>index\<close> the position of the first of the files still to do.
\<close>

fun process_files ::
  "'w env \<Rightarrow> string \<Rightarrow> options \<Rightarrow> string list \<Rightarrow> nat \<Rightarrow> string list \<Rightarrow> 'w run \<Rightarrow> 'w run" where
  "process_files env folderPath opts files index [] s = s"
| "process_files env folderPath opts files index (file # rest) s =
     process_files env folderPath opts files (Suc index) rest
       (loop_body env folderPath opts files index file s)"

section \<open>The run (lines 15 to 132)\<close>

text \<open>The outer \<open>try\<close> block, lines 24 to 124.\<close>

definition try_analyze ::
  "'w env \<Rightarrow> string \<Rightarrow> options \<Rightarrow> 'w run \<Rightarrow> (js_error + unit) \<times> 'w run" where
  "try_analyze env folderPath opts s0 =
     (case call (fs_existsSync env folderPath) (ExistsSync folderPath) s0 of
        (exists, s1) \<Rightarrow>
          if \<not> exists then (Inl (new_Error (''Folder does not exist: '' @ folderPath)), s1)
          else
            (let pattern = folderPath @ ''/**/*.js'';
                 s2 = (if truthy (verbose opts) then emits [ConsoleLog (MsgSearching pattern)] s1
                       else s1)
             in case call (glob env pattern) (Glob pattern) s2 of
                  (Inl error, s3) \<Rightarrow> (Inl error, s3)
                | (Inr files, s3) \<Rightarrow>
                    if length files = 0 then
                      (Inr (),
                       if truthy (verbose opts)
                       then emits [ConsoleWarn MsgNoFiles, ConsoleLog MsgHintPath,
                                   ConsoleLog (MsgHintCwd (process_cwd env))] s3
                       else emits [ConsoleWarn MsgNoFiles] s3)
                    else
                      (let s4 = emits [ConsoleLog (MsgFound (length files))] s3;
                           s5 = (if truthy (verbose opts)
                                 then emits ([ConsoleLog MsgFirstFew] @
                                             map (\<lambda>(i, file). ConsoleLog (MsgListItem (i + 1) file))
                                                 (enumerate 0 (take 5 files)) @
                                             [ConsoleLog (MsgAndMore (int (length files) - 5))]) s4
                                 else s4);
                           s6 = process_files env folderPath opts files 0 files s5;
                           s7 = emits [ConsoleLog MsgComplete,
                                       ConsoleLog (MsgSuccessCount (successCount s6))] s6;
                           s8 = (if errorCount s6 > 0
                                 then emits [ConsoleWarn (MsgErrorCount (errorCount s6))] s7
                                 else s7)
                       in case path_resolve_js env (output_dir opts) of
                            Inl error \<Rightarrow> (Inl error, s8)
                          | Inr outputDir \<Rightarrow> (Inr (), emits [ConsoleLog (MsgOutputDir outputDir)] s8))))"

text \<open>The outer \<open>catch\<close> block, lines 125 to 131: report, then throw the same error again.\<close>

definition catch_analyze :: "options \<Rightarrow> js_error \<Rightarrow> 'w run \<Rightarrow> (js_error + unit) \<times> 'w run" where
  "catch_analyze opts error s =
     (let s1 = emits [ConsoleError (MsgAnalysisFailed (message error))] s
      in (Inl error, if truthy (verbose opts) then emits [ConsoleError (MsgStack error)] s1 else s1))"

definition init_run :: "'w \<Rightarrow> 'w run" where
  "init_run w = \<lparr>successCount = 0, errorCount = 0, trace = [], world = w\<rparr>"

text \<open>
  \<open>analyzeCodebase\<close>: \<open>Inl\<close> is the error the returned promise rejects with, \<open>Inr ()\<close> a
  normal return.
\<close>

definition analyzeCodebase ::
  "'w env \<Rightarrow> jsval \<Rightarrow> options_arg \<Rightarrow> 'w \<Rightarrow> (js_error + unit) \<times> 'w run" where
  "analyzeCodebase env folderPath optionsArg w =
     (if \<not> truthy folderPath \<or> typeof folderPath \<noteq> ''string''
      then (Inl (new_Error ''Invalid folder path''), init_run w)
      else case bind_options optionsArg of
             Inl error \<Rightarrow> (Inl error, init_run w)
           | Inr opts \<Rightarrow>
               if \<not> truthy (output_dir opts)
               then (Inl (new_Error ''Output directory must be specified''), init_run w)
               else (case try_analyze env (string_of folderPath) opts (init_run w) of
                       (Inl error, s) \<Rightarrow> catch_analyze opts error s
                     | (Inr u, s) \<Rightarrow> (Inr u, s)))"

section \<open>Reading a trace\<close>

text \<open>
  The properties below are stated on the trace of a run. These functions pick out of a
  trace what a property is about; none of them is part of the program.
\<close>

text \<open>The error a collaborator threw inside the per-file \<open>try\<close> block, and all of them in order.\<close>

fun thrown :: "event \<Rightarrow> js_error option" where
  "thrown (ReadFileSync file (Inl e)) = Some e"
| "thrown (CallGemini prompt (Inl e)) = Some e"
| "thrown (WriteMarkdown file doc out (Inl e)) = Some e"
| "thrown ev = None"

fun failures :: "event list \<Rightarrow> js_error list" where
  "failures [] = []"
| "failures (ev # es) = (case thrown ev of Some e \<Rightarrow> e # failures es | None \<Rightarrow> failures es)"

text \<open>The delays taken, in milliseconds.\<close>

fun delays :: "event list \<Rightarrow> nat list" where
  "delays [] = []"
| "delays (SetTimeout ms # es) = ms # delays es"
| "delays (ev # es) = delays es"

text \<open>The files whose processing was attempted: reading is the first step of each.\<close>

fun attempted :: "event list \<Rightarrow> string list" where
  "attempted [] = []"
| "attempted (ReadFileSync file r # es) = file # attempted es"
| "attempted (ev # es) = attempted es"

text \<open>The prompts sent to the AI client, and the files read with the content read.\<close>

fun prompts :: "event list \<Rightarrow> string list" where
  "prompts [] = []"
| "prompts (CallGemini prompt r # es) = prompt # prompts es"
| "prompts (ev # es) = prompts es"

fun successful_reads :: "event list \<Rightarrow> (string \<times> string) list" where
  "successful_reads [] = []"
| "successful_reads (ReadFileSync file (Inr content) # es) = (file, content) # successful_reads es"
| "successful_reads (ev # es) = successful_reads es"

text \<open>
  The events of the loop (collaborator calls on a file, delays), and the calls alone;
  \<open>uses_ai_or_writer\<close> holds of a call of the AI client or of the markdown writer.
\<close>

fun is_loop_event :: "event \<Rightarrow> bool" where
  "is_loop_event (ReadFileSync file r) = True"
| "is_loop_event (CallGemini prompt r) = True"
| "is_loop_event (WriteMarkdown file doc out r) = True"
| "is_loop_event (SetTimeout ms) = True"
| "is_loop_event ev = False"

fun is_file_call :: "event \<Rightarrow> bool" where
  "is_file_call (ReadFileSync file r) = True"
| "is_file_call (CallGemini prompt r) = True"
| "is_file_call (WriteMarkdown file doc out r) = True"
| "is_file_call ev = False"

fun uses_ai_or_writer :: "event \<Rightarrow> bool" where
  "uses_ai_or_writer (CallGemini prompt r) = True"
| "uses_ai_or_writer (WriteMarkdown file doc out r) = True"
| "uses_ai_or_writer ev = False"

text \<open>
  A monitor for local catching. It reads the trace from the start, remembering the file
  last read (\<open>cur\<close>) and the error just thrown, if any: the event right after a throw
  must be a \<open>console.error\<close> report with the relative path of that file and the message of
  that error, and no throw may be pending at the end.
\<close>

fun reports :: "string \<Rightarrow> string \<Rightarrow> event \<Rightarrow> bool" where
  "reports rel m (ConsoleError (MsgFileError progress r m')) = (r = rel \<and> m' = m)"
| "reports rel m (ConsoleError (MsgFileErrorIndented progress r m')) = (r = rel \<and> m' = m)"
| "reports rel m ev = False"

fun current_file :: "string \<Rightarrow> event \<Rightarrow> string" where
  "current_file cur (ReadFileSync file r) = file"
| "current_file cur ev = cur"

fun caught_locally ::
  "'w env \<Rightarrow> string \<Rightarrow> string \<Rightarrow> js_error option \<Rightarrow> event list \<Rightarrow> bool" where
  "caught_locally env folderPath cur None [] = True"
| "caught_locally env folderPath cur (Some e) [] = False"
| "caught_locally env folderPath cur (Some e) (ev # es) =
     (reports (path_relative env folderPath cur) (message e) ev \<and>
      caught_locally env folderPath cur None es)"
| "caught_locally env folderPath cur None (ev # es) =
     caught_locally env folderPath (current_file cur ev) (thrown ev) es"

text \<open>
  Sequential processing. \<open>take_block file\<close> removes from the front of a list of calls the
  calls of one file: the read; or the read and the AI call; or the read, the AI call and
  the write of the document the AI call returned. \<open>sequential files\<close> holds of a list of
  calls that is one such block per file, in the order of \<open>files\<close>, and nothing else.
\<close>

fun take_block :: "string \<Rightarrow> event list \<Rightarrow> event list option" where
  "take_block file (ReadFileSync f (Inl e) # es) = (if f = file then Some es else None)"
| "take_block file (ReadFileSync f (Inr content) # CallGemini p (Inl e) # es) =
     (if f = file then Some es else None)"
| "take_block file (ReadFileSync f (Inr content) # CallGemini p (Inr doc) #
                    WriteMarkdown f' doc' out r # es) =
     (if f = file \<and> f' = file \<and> doc' = doc then Some es else None)"
| "take_block file es = None"

fun sequential :: "string list \<Rightarrow> event list \<Rightarrow> bool" where
  "sequential [] es = (es = [])"
| "sequential (file # rest) es =
     (case take_block file es of None \<Rightarrow> False | Some es' \<Rightarrow> sequential rest es')"

text \<open>
  The same with the delays: one block per file, a delay of 500 ms after the block of
  each file but the last, and nothing else.
\<close>

fun paced :: "string list \<Rightarrow> event list \<Rightarrow> bool" where
  "paced [] es = (es = [])"
| "paced [file] es = (take_block file es = Some [])"
| "paced (file # next # rest) es =
     (case take_block file es of
        Some (SetTimeout ms # es') \<Rightarrow> ms = 500 \<and> paced (next # rest) es'
      | _ \<Rightarrow> False)"

text \<open>
  Replaying a trace. The events of a trace are written by the program; \<open>replay\<close> checks
  them against the collaborators themselves. Starting in a world, it makes every
  collaborator call the trace records, with the recorded arguments and in the recorded
  order, on the world the calls before it left. It gives the world after the last call,
  or \<open>None\<close> as soon as a collaborator returns anything else than what the trace recorded.
  Console output and the calls of \<open>path\<close> leave the world alone.
\<close>

fun replay_event :: "'w env \<Rightarrow> event \<Rightarrow> 'w \<Rightarrow> 'w option" where
  "replay_event env (ConsoleLog m) w = Some w"
| "replay_event env (ConsoleWarn m) w = Some w"
| "replay_event env (ConsoleError m) w = Some w"
| "replay_event env (StdoutWrite m) w = Some w"
| "replay_event env (ExistsSync p r) w =
     (case fs_existsSync env p w of (r', w') \<Rightarrow> if r' = r then Some w' else None)"
| "replay_event env (Glob pattern r) w =
     (case glob env pattern w of (r', w') \<Rightarrow> if r' = r then Some w' else None)"
| "replay_event env (ReadFileSync f r) w =
     (case fs_readFileSync env f w of (r', w') \<Rightarrow> if r' = r then Some w' else None)"
| "replay_event env (CallGemini prompt r) w =
     (case callGemini env prompt w of (r', w') \<Rightarrow> if r' = r then Some w' else None)"
| "replay_event env (WriteMarkdown f doc out r) w =
     (case writeMarkdown env f doc out w of (r', w') \<Rightarrow> if r' = r then Some w' else None)"
| "replay_event env (SetTimeout ms) w = Some (setTimeout env ms w)"

fun replay :: "'w env \<Rightarrow> event list \<Rightarrow> 'w \<Rightarrow> 'w option" where
  "replay env [] w = Some w"
| "replay env (ev # es) w =
     (case replay_event env ev w of None \<Rightarrow> None | Some w' \<Rightarrow> replay env es w')"

text \<open>What the outer \<open>catch\<close> block prints for an error, last thing before it throws it again.\<close>

definition fatal_report :: "options \<Rightarrow> js_error \<Rightarrow> event list" where
  "fatal_report opts e =
     ConsoleError (MsgAnalysisFailed (message e)) #
     (if truthy (verbose opts) then [ConsoleError (MsgStack e)] else [])"

text \<open>\<open>ends_with t r\<close>: the list \<open>r\<close> is the end of the list \<open>t\<close>.\<close>

definition ends_with :: "'a list \<Rightarrow> 'a list \<Rightarrow> bool" where
  "ends_with t r = (length r \<le> length t \<and> drop (length t - length r) t = r)"

text \<open>The two guards of lines 16 to 22 let the arguments through.\<close>

definition valid_arguments :: "jsval \<Rightarrow> options_arg \<Rightarrow> bool" where
  "valid_arguments folderPath optionsArg =
     (truthy folderPath \<and> typeof folderPath = ''string'' \<and>
      (case bind_options optionsArg of Inl e \<Rightarrow> False | Inr opts \<Rightarrow> truthy (output_dir opts)))"

section \<open>A concrete environment\<close>

text \<open>
  A small world to run the model in. Three folders exist: \<open>src\<close> holds three files,
  \<open>empty\<close> holds none, and the traversal of \<open>locked\<close> fails. The world counts the calls
  of the AI client, which fails on its second call and on no other.
\<close>

definition demo_env :: "nat env" where
  "demo_env =
     \<lparr>fs_existsSync = (\<lambda>p w. (p = ''src'' \<or> p = ''empty'' \<or> p = ''locked'', w)),
      glob = (\<lambda>pattern w.
                (if pattern = ''src/**/*.js'' then Inr [''src/a.js'', ''src/b.js'', ''src/c.js'']
                 else if pattern = ''empty/**/*.js'' then Inr []
                 else Inl (JsError ''Error'' ''EACCES: permission denied''), w)),
      fs_readFileSync = (\<lambda>file w. (Inr (''// '' @ file), w)),
      callGemini = (\<lambda>prompt w.
                (if w = 1 then Inl (JsError ''Error'' ''quota exceeded'') else Inr ''DOC'', w + 1)),
      writeMarkdown = (\<lambda>file doc out w. (Inr (''docs/'' @ file @ ''.md''), w)),
      setTimeout = (\<lambda>ms w. w),
      path_relative = (\<lambda>from to. drop (length from + 1) to),
      path_resolve = (\<lambda>p. ''/work/'' @ p),
      process_cwd = ''/work'',
      ERR_INVALID_ARG_TYPE = (\<lambda>v. JsError ''TypeError'' ''ERR_INVALID_ARG_TYPE'')\<rparr>"

definition demo_options :: options where
  "demo_options = \<lparr>output_dir = JStr ''docs'', model = JStr ''gemini'', verbose = JBool False\<rparr>"

text \<open>
  The state in which the run over \<open>src\<close> ends when the AI client has not been called
  before (its second call, for \<open>b.js\<close>, fails), and when it has been called five times
  before (no call fails).
\<close>

definition demo_files :: "string list" where
  "demo_files = [''src/a.js'', ''src/b.js'', ''src/c.js'']"

definition demo_failed_run :: "nat run" where
  "demo_failed_run =
     \<lparr>successCount = 2, errorCount = 1,
      trace =
        [ExistsSync ''src'' True,
         Glob ''src/**/*.js'' (Inr [''src/a.js'', ''src/b.js'', ''src/c.js'']),
         ConsoleLog (MsgFound 3),
         StdoutWrite (MsgProcessing (1, 3) ''a.js''),
         ReadFileSync ''src/a.js'' (Inr ''// src/a.js''),
         CallGemini (build_prompt ''a.js'' ''// src/a.js'') (Inr ''DOC''),
         WriteMarkdown ''src/a.js'' ''DOC'' (JStr ''docs'') (Inr ''docs/src/a.js.md''),
         SetTimeout 500,
         StdoutWrite (MsgProcessing (2, 3) ''b.js''),
         ReadFileSync ''src/b.js'' (Inr ''// src/b.js''),
         CallGemini (build_prompt ''b.js'' ''// src/b.js'') (Inl (JsError ''Error'' ''quota exceeded'')),
         ConsoleError (MsgFileError (2, 3) ''b.js'' ''quota exceeded''),
         SetTimeout 500,
         StdoutWrite (MsgProcessing (3, 3) ''c.js''),
         ReadFileSync ''src/c.js'' (Inr ''// src/c.js''),
         CallGemini (build_prompt ''c.js'' ''// src/c.js'') (Inr ''DOC''),
         WriteMarkdown ''src/c.js'' ''DOC'' (JStr ''docs'') (Inr ''docs/src/c.js.md''),
         ConsoleLog MsgComplete,
         ConsoleLog (MsgSuccessCount 2),
         ConsoleWarn (MsgErrorCount 1),
         ConsoleLog (MsgOutputDir ''/work/docs'')],
      world = 3\<rparr>"


text \<open>The states in which the runs over \<open>empty\<close>, \<open>locked\<close> and a folder that does not exist end.\<close>

definition demo_empty_run :: "nat run" where
  "demo_empty_run =
     \<lparr>successCount = 0, errorCount = 0,
      trace = [ExistsSync ''empty'' True, Glob ''empty/**/*.js'' (Inr []), ConsoleWarn MsgNoFiles],
      world = 0\<rparr>"

definition demo_locked_run :: "nat run" where
  "demo_locked_run =
     \<lparr>successCount = 0, errorCount = 0,
      trace = [ExistsSync ''locked'' True,
               Glob ''locked/**/*.js'' (Inl (JsError ''Error'' ''EACCES: permission denied'')),
               ConsoleError (MsgAnalysisFailed ''EACCES: permission denied'')],
      world = 0\<rparr>"

definition demo_missing_run :: "nat run" where
  "demo_missing_run =
     \<lparr>successCount = 0, errorCount = 0,
      trace = [ExistsSync ''nowhere'' False,
               ConsoleError (MsgAnalysisFailed ''Folder does not exist: nowhere'')],
      world = 0\<rparr>"

text \<open>
  A second world, which remembers what the collaborators were asked to do: how many times
  the AI client was called, how long the timer was asked to wait in all, and the documents
  the writer wrote, each with its source file. The AI client answers with \<open>DOC:\<close> and the
  prompt it was given, and fails on its second call; the writer fails on \<open>src/c.js\<close>.
\<close>

record probe =
  ai_calls :: nat
  elapsed :: nat
  documents :: "(string \<times> string) list"

definition probe_env :: "probe env" where
  "probe_env =
     \<lparr>fs_existsSync = (\<lambda>p w. (p = ''src'', w)),
      glob = (\<lambda>pattern w.
                (if pattern = ''src/**/*.js'' then Inr [''src/a.js'', ''src/b.js'', ''src/c.js'']
                 else Inr [], w)),
      fs_readFileSync = (\<lambda>f w. (Inr (''// '' @ f), w)),
      callGemini = (\<lambda>prompt w.
                (if ai_calls w = 1 then Inl (JsError ''Error'' ''quota exceeded'')
                 else Inr (''DOC:'' @ prompt),
                 w\<lparr>ai_calls := ai_calls w + 1\<rparr>)),
      writeMarkdown = (\<lambda>f doc out w.
                if f = ''src/c.js'' then (Inl (JsError ''Error'' ''EACCES: permission denied''), w)
                else (Inr (''docs/'' @ f @ ''.md''), w\<lparr>documents := documents w @ [(f, doc)]\<rparr>)),
      setTimeout = (\<lambda>ms w. w\<lparr>elapsed := elapsed w + ms\<rparr>),
      path_relative = (\<lambda>from to. drop (length from + 1) to),
      path_resolve = (\<lambda>p. ''/work/'' @ p),
      process_cwd = ''/work'',
      ERR_INVALID_ARG_TYPE = (\<lambda>v. JsError ''TypeError'' ''ERR_INVALID_ARG_TYPE'')\<rparr>"

definition probe_start :: probe where
  "probe_start = \<lparr>ai_calls = 0, elapsed = 0, documents = []\<rparr>"

text \<open>The state in which the run over \<open>src\<close> ends in this world.\<close>

definition probe_run :: "probe run" where
  "probe_run =
     \<lparr>successCount = 1, errorCount = 2,
      trace =
        [ExistsSync ''src'' True,
         Glob ''src/**/*.js'' (Inr [''src/a.js'', ''src/b.js'', ''src/c.js'']),
         ConsoleLog (MsgFound 3),
         StdoutWrite (MsgProcessing (1, 3) ''a.js''),
         ReadFileSync ''src/a.js'' (Inr ''// src/a.js''),
         CallGemini (build_prompt ''a.js'' ''// src/a.js'')
           (Inr (''DOC:'' @ build_prompt ''a.js'' ''// src/a.js'')),
         WriteMarkdown ''src/a.js'' (''DOC:'' @ build_prompt ''a.js'' ''// src/a.js'') (JStr ''docs'')
           (Inr ''docs/src/a.js.md''),
         SetTimeout 500,
         StdoutWrite (MsgProcessing (2, 3) ''b.js''),
         ReadFileSync ''src/b.js'' (Inr ''// src/b.js''),
         CallGemini (build_prompt ''b.js'' ''// src/b.js'') (Inl (JsError ''Error'' ''quota exceeded'')),
         ConsoleError (MsgFileError (2, 3) ''b.js'' ''quota exceeded''),
         SetTimeout 500,
         StdoutWrite (MsgProcessing (3, 3) ''c.js''),
         ReadFileSync ''src/c.js'' (Inr ''// src/c.js''),
         CallGemini (build_prompt ''c.js'' ''// src/c.js'')
           (Inr (''DOC:'' @ build_prompt ''c.js'' ''// src/c.js'')),
         WriteMarkdown ''src/c.js'' (''DOC:'' @ build_prompt ''c.js'' ''// src/c.js'') (JStr ''docs'')
           (Inl (JsError ''Error'' ''EACCES: permission denied'')),
         ConsoleError (MsgFileError (3, 3) ''c.js'' ''EACCES: permission denied''),
         ConsoleLog MsgComplete,
         ConsoleLog (MsgSuccessCount 1),
         ConsoleWarn (MsgErrorCount 2),
         ConsoleLog (MsgOutputDir ''/work/docs'')],
      world =
        \<lparr>ai_calls = 3, elapsed = 1000,
         documents = [(''src/a.js'', ''DOC:'' @ build_prompt ''a.js'' ''// src/a.js'')]\<rparr>\<rparr>"

section \<open>Lemmas on traces\<close>

subsection \<open>Projections and appending\<close>

lemma failures_append: "failures (xs @ ys) = failures xs @ failures ys"
  by (induction xs) (simp_all split: option.splits)

lemma delays_append: "delays (xs @ ys) = delays xs @ delays ys"
  by (induction xs rule: delays.induct) simp_all

lemma attempted_append: "attempted (xs @ ys) = attempted xs @ attempted ys"
  by (induction xs rule: attempted.induct) simp_all

lemma prompts_append: "prompts (xs @ ys) = prompts xs @ prompts ys"
  by (induction xs rule: prompts.induct) simp_all

lemma successful_reads_append:
  "successful_reads (xs @ ys) = successful_reads xs @ successful_reads ys"
  by (induction xs rule: successful_reads.induct) simp_all

lemmas proj_append = failures_append delays_append attempted_append
  prompts_append successful_reads_append

lemma caught_locally_append:
  "caught_locally env fp cur p xs \<Longrightarrow>
   caught_locally env fp cur p (xs @ ys) = caught_locally env fp (foldl current_file cur xs) None ys"
proof (induction env fp cur p xs rule: caught_locally.induct)
  case (3 env folderPath cur e ev es)
  then have "current_file cur ev = cur"
    by (cases "(path_relative env folderPath cur, message e, ev)" rule: reports.cases) simp_all
  with 3 show ?case by simp
qed simp_all

lemma take_block_append:
  "take_block f xs = Some xs' \<Longrightarrow> take_block f (xs @ ys) = Some (xs' @ ys)"
  by (induction f xs rule: take_block.induct) (simp_all split: if_splits)

lemma sequential_append:
  "sequential fs xs \<Longrightarrow> sequential (fs @ gs) (xs @ ys) = sequential gs ys"
proof (induction fs arbitrary: xs)
  case Nil
  then show ?case by simp
next
  case (Cons f fs)
  then obtain xs' where b: "take_block f xs = Some xs'" and s: "sequential fs xs'"
    by (auto split: option.splits)
  from take_block_append [OF b] Cons.IH [OF s] show ?case by simp
qed

lemma replay_append:
  "replay env (xs @ ys) w = (case replay env xs w of None \<Rightarrow> None | Some w' \<Rightarrow> replay env ys w')"
  by (induction xs arbitrary: w) (simp_all split: option.splits)

lemma replay_console_map: "replay env (map (\<lambda>(i, x). ConsoleLog (g i x)) xs) w = Some w"
  by (induction xs) auto

subsection \<open>Events outside the loop\<close>

lemma quiet_failures: "list_all (\<lambda>ev. \<not> is_loop_event ev) es \<Longrightarrow> failures es = []"
  by (induction es rule: attempted.induct) simp_all

lemma quiet_delays: "list_all (\<lambda>ev. \<not> is_loop_event ev) es \<Longrightarrow> delays es = []"
  by (induction es rule: delays.induct) simp_all

lemma quiet_attempted: "list_all (\<lambda>ev. \<not> is_loop_event ev) es \<Longrightarrow> attempted es = []"
  by (induction es rule: attempted.induct) simp_all



lemma quiet_file_calls: "list_all (\<lambda>ev. \<not> is_loop_event ev) es \<Longrightarrow> filter is_file_call es = []"
  by (induction es rule: attempted.induct) simp_all

lemma quiet_caught:
  "list_all (\<lambda>ev. \<not> is_loop_event ev) es \<Longrightarrow>
   caught_locally env fp cur None es \<and> foldl current_file cur es = cur"
  by (induction es arbitrary: cur rule: attempted.induct) simp_all


subsection \<open>One iteration\<close>

lemmas loop_defs = loop_body_def process_file_def try_file_def catch_file_def call_def emits_def sleep_def Let_def

lemma loop_body_delays:
  "delays (trace (loop_body env fp opts files index f s)) =
     delays (trace s) @ (if int index < int (length files) - 1 then [500] else [])"
  by (simp add: loop_defs proj_append split: prod.splits sum.splits)

lemma loop_body_attempted:
  "attempted (trace (loop_body env fp opts files index f s)) = attempted (trace s) @ [f]"
  by (simp add: loop_defs proj_append split: prod.splits sum.splits)


lemma loop_body_failures:
  "errorCount (loop_body env fp opts files index f s) + length (failures (trace s)) =
     errorCount s + length (failures (trace (loop_body env fp opts files index f s)))"
  by (simp add: loop_defs proj_append split: prod.splits sum.splits)


lemma loop_body_caught:
  "caught_locally env fp cur None (trace s) \<Longrightarrow>
   caught_locally env fp cur None (trace (loop_body env fp opts files index f s))"
  by (simp add: loop_defs caught_locally_append split: prod.splits sum.splits)

lemma process_file_calls:
  "\<exists>block. filter is_loop_event (trace (process_file env opts rel progress f s)) =
            filter is_loop_event (trace s) @ block \<and>
          filter is_file_call (trace (process_file env opts rel progress f s)) =
            filter is_file_call (trace s) @ block \<and> take_block f block = Some []"
  by (simp add: process_file_def try_file_def catch_file_def call_def emits_def Let_def
           split: prod.splits sum.splits)

lemma loop_body_calls:
  "\<exists>block. filter is_file_call (trace (loop_body env fp opts files index f s)) =
            filter is_file_call (trace s) @ block \<and> take_block f block = Some []"
  using process_file_calls [of env opts "path_relative env fp f" "(index + 1, length files)" f s]
  by (auto simp add: loop_body_def Let_def sleep_def emits_def)

lemma loop_body_paced:
  "\<exists>block. filter is_loop_event (trace (loop_body env fp opts files index f s)) =
            filter is_loop_event (trace s) @ block @
              (if int index < int (length files) - 1 then [SetTimeout 500] else []) \<and>
          take_block f block = Some []"
  using process_file_calls [of env opts "path_relative env fp f" "(index + 1, length files)" f s]
  by (auto simp add: loop_body_def Let_def sleep_def emits_def)

lemma loop_body_replay:
  "replay env (trace s) w0 = Some (world s) \<Longrightarrow>
   replay env (trace (loop_body env fp opts files index f s)) w0 =
     Some (world (loop_body env fp opts files index f s))"
  by (simp add: loop_defs replay_append split: prod.splits sum.splits)

subsection \<open>The loop\<close>

lemma process_files_delays:
  "index + length rest = length files \<Longrightarrow>
   delays (trace (process_files env fp opts files index rest s)) =
     delays (trace s) @ replicate (length rest - 1) 500"
proof (induction rest arbitrary: index s)
  case Nil
  then show ?case by simp
next
  case (Cons f rest)
  then have "Suc index + length rest = length files" by simp
  from Cons.IH [OF this] Cons.prems show ?case
    by (cases rest) (simp_all add: loop_body_delays)
qed

lemma process_files_attempted:
  "attempted (trace (process_files env fp opts files index rest s)) = attempted (trace s) @ rest"
  by (induction rest arbitrary: index s) (simp_all add: loop_body_attempted)


lemma process_files_failures:
  "errorCount (process_files env fp opts files index rest s) + length (failures (trace s)) =
     errorCount s + length (failures (trace (process_files env fp opts files index rest s)))"
proof (induction rest arbitrary: index s)
  case Nil
  then show ?case by simp
next
  case (Cons f rest)
  from loop_body_failures [of env fp opts files index f s] Cons.IH [of "Suc index" "loop_body env fp opts files index f s"]
  show ?case by simp
qed


lemma process_files_caught:
  "caught_locally env fp cur None (trace s) \<Longrightarrow>
   caught_locally env fp cur None (trace (process_files env fp opts files index rest s))"
  by (induction rest arbitrary: index s) (simp_all add: loop_body_caught)

lemma process_files_sequential:
  "\<exists>new. filter is_file_call (trace (process_files env fp opts files index rest s)) =
          filter is_file_call (trace s) @ new \<and> sequential rest new"
proof (induction rest arbitrary: index s)
  case Nil
  then show ?case by simp
next
  case (Cons f rest)
  let ?s1 = "loop_body env fp opts files index f s"
  obtain block where b: "filter is_file_call (trace ?s1) = filter is_file_call (trace s) @ block"
    and t: "take_block f block = Some []"
    using loop_body_calls [of env fp opts files index f s] by blast
  obtain new where n: "filter is_file_call (trace (process_files env fp opts files (Suc index) rest ?s1)) =
      filter is_file_call (trace ?s1) @ new" and q: "sequential rest new"
    using Cons.IH [of "Suc index" ?s1] by blast
  from take_block_append [OF t, of new] q have "sequential (f # rest) (block @ new)" by simp
  with b n show ?case by simp
qed

lemma process_files_paced:
  "index + length rest = length files \<Longrightarrow>
   \<exists>new. filter is_loop_event (trace (process_files env fp opts files index rest s)) =
          filter is_loop_event (trace s) @ new \<and> paced rest new"
proof (induction rest arbitrary: index s)
  case Nil
  then show ?case by simp
next
  case (Cons f rest)
  let ?s1 = "loop_body env fp opts files index f s"
  obtain block where b: "filter is_loop_event (trace ?s1) = filter is_loop_event (trace s) @ block @
        (if int index < int (length files) - 1 then [SetTimeout 500] else [])"
    and t: "take_block f block = Some []"
    using loop_body_paced [of env fp opts files index f s] by blast
  from Cons.prems have "Suc index + length rest = length files" by simp
  then obtain new where n: "filter is_loop_event (trace (process_files env fp opts files (Suc index) rest ?s1)) =
      filter is_loop_event (trace ?s1) @ new" and q: "paced rest new"
    using Cons.IH [of "Suc index" ?s1] by blast
  show ?case
  proof (cases rest)
    case Nil
    with q have "new = []" by simp
    moreover from Nil Cons.prems have "\<not> int index < int (length files) - 1" by simp
    ultimately show ?thesis using b n t Nil by simp
  next
    case (Cons g rest')
    with \<open>index + length (f # rest) = length files\<close>
    have lt: "int index < int (length files) - 1" by simp
    from take_block_append [OF t, of "SetTimeout 500 # new"] q Cons
    have "paced (f # rest) (block @ SetTimeout 500 # new)" by simp
    with b n lt show ?thesis by simp
  qed
qed

lemma process_files_replay:
  "replay env (trace s) w0 = Some (world s) \<Longrightarrow>
   replay env (trace (process_files env fp opts files index rest s)) w0 =
     Some (world (process_files env fp opts files index rest s))"
  by (induction rest arbitrary: index s) (simp_all add: loop_body_replay)

subsection \<open>A run that reaches the loop\<close>

text \<open>
  A run reaches the loop when both guards let the arguments through, the folder exists and
  the discovery returns at least one file. The arguments are then a non-empty string and an
  options object with a truthy output, so the properties of such runs are stated for
  \<open>JStr p\<close> with \<open>p\<close> not empty and \<open>OptObj opts\<close>.
\<close>

lemma analyze_reaches_loop:
  assumes "truthy folderPath" and "typeof folderPath = ''string''"
    and "bind_options optionsArg = Inr opts" and "truthy (output_dir opts)"
    and "fs_existsSync env (string_of folderPath) w = (True, w1)"
    and "glob env (string_of folderPath @ ''/**/*.js'') w1 = (Inr files, w2)"
    and "files \<noteq> []"
  shows "\<exists>s5 post.
           list_all (\<lambda>ev. \<not> is_loop_event ev) (trace s5) \<and>
           list_all (\<lambda>ev. \<not> is_loop_event ev) post \<and>
           successCount s5 = 0 \<and> errorCount s5 = 0 \<and>
           replay env (trace s5) w = Some (world s5) \<and>
           (\<forall>w'. replay env post w' = Some w') \<and>
           snd (analyzeCodebase env folderPath optionsArg w) =
             emits post (process_files env (string_of folderPath) opts files 0 files s5) \<and>
           ConsoleLog (MsgSuccessCount
             (successCount (process_files env (string_of folderPath) opts files 0 files s5))) \<in> set post \<and>
           fst (analyzeCodebase env folderPath optionsArg w) =
             (case path_resolve_js env (output_dir opts) of Inl e \<Rightarrow> Inl e | Inr d \<Rightarrow> Inr ())"
proof -
  let ?p = "string_of folderPath"
  let ?s3 = "emits ([ExistsSync ?p True] @
                    (if truthy (verbose opts) then [ConsoleLog (MsgSearching (?p @ ''/**/*.js''))] else []) @
                    [Glob (?p @ ''/**/*.js'') (Inr files)]) ((init_run w)\<lparr>world := w2\<rparr>)"
  let ?s5 = "emits ([ConsoleLog (MsgFound (length files))] @
                    (if truthy (verbose opts)
                     then [ConsoleLog MsgFirstFew] @
                          map (\<lambda>(i, file). ConsoleLog (MsgListItem (i + 1) file)) (enumerate 0 (take 5 files)) @
                          [ConsoleLog (MsgAndMore (int (length files) - 5))]
                     else [])) ?s3"
  let ?s6 = "process_files env ?p opts files 0 files ?s5"
  let ?summary = "[ConsoleLog MsgComplete, ConsoleLog (MsgSuccessCount (successCount ?s6))] @
               (if errorCount ?s6 > 0 then [ConsoleWarn (MsgErrorCount (errorCount ?s6))] else [])"
  let ?post = "?summary @
               (case path_resolve_js env (output_dir opts) of
                  Inl e \<Rightarrow> [ConsoleError (MsgAnalysisFailed (message e))] @
                           (if truthy (verbose opts) then [ConsoleError (MsgStack e)] else [])
                | Inr d \<Rightarrow> [ConsoleLog (MsgOutputDir d)])"
  have q5: "list_all (\<lambda>ev. \<not> is_loop_event ev) (trace ?s5)"
    by (auto simp add: emits_def init_run_def list_all_iff split_beta)
  have qp: "list_all (\<lambda>ev. \<not> is_loop_event ev) ?post"
    by (simp split: sum.splits)
  have c5: "successCount ?s5 = 0 \<and> errorCount ?s5 = 0"
    by (simp add: emits_def init_run_def)
  have r5: "replay env (trace ?s5) w = Some (world ?s5)"
    using assms(5,6)
    by (cases "truthy (verbose opts)")
       (simp_all add: emits_def init_run_def replay_append replay_console_map)
  have rp: "\<forall>w'. replay env ?post w' = Some w'"
    by (simp split: sum.splits)
  have body: "try_analyze env ?p opts (init_run w) =
      (case path_resolve_js env (output_dir opts) of
         Inl e \<Rightarrow> (Inl e, emits ?summary ?s6)
       | Inr d \<Rightarrow> (Inr (), emits ?post ?s6))"
    using assms(5-7)
    by (simp add: try_analyze_def call_def emits_def init_run_def Let_def split: sum.splits)
  have "analyzeCodebase env folderPath optionsArg w =
      (case path_resolve_js env (output_dir opts) of Inl e \<Rightarrow> Inl e | Inr d \<Rightarrow> Inr (), emits ?post ?s6)"
    using assms(1-4)
    by (simp add: analyzeCodebase_def body catch_analyze_def emits_def Let_def split: sum.splits)
  with q5 qp c5 r5 rp show ?thesis
    by (intro exI [of _ ?s5] exI [of _ ?post]) simp
qed


lemma reaches_loop:
  assumes "p \<noteq> []" and "truthy (output_dir opts)"
    and "fs_existsSync env p w = (True, w1)"
    and "glob env (p @ ''/**/*.js'') w1 = (Inr files, w2)"
    and "files \<noteq> []"
    and "analyzeCodebase env (JStr p) (OptObj opts) w = (outcome, s)"
  shows "\<exists>s5 post.
           list_all (\<lambda>ev. \<not> is_loop_event ev) (trace s5) \<and>
           list_all (\<lambda>ev. \<not> is_loop_event ev) post \<and>
           successCount s5 = 0 \<and> errorCount s5 = 0 \<and>
           replay env (trace s5) w = Some (world s5) \<and>
           (\<forall>w'. replay env post w' = Some w') \<and>
           s = emits post (process_files env p opts files 0 files s5) \<and>
           ConsoleLog (MsgSuccessCount (successCount (process_files env p opts files 0 files s5))) \<in> set post \<and>
           outcome = (case path_resolve_js env (output_dir opts) of Inl e \<Rightarrow> Inl e | Inr d \<Rightarrow> Inr ())"
  using analyze_reaches_loop [of "JStr p" "OptObj opts" opts env w w1 files w2] assms
  by simp

lemma reaches_loop_replay:
  assumes "p \<noteq> []" and "truthy (output_dir opts)"
    and "fs_existsSync env p w = (True, w1)"
    and "glob env (p @ ''/**/*.js'') w1 = (Inr files, w2)"
    and "files \<noteq> []"
    and "analyzeCodebase env (JStr p) (OptObj opts) w = (outcome, s)"
  shows "replay env (trace s) w = Some (world s)"
proof -
  obtain s5 post where r5: "replay env (trace s5) w = Some (world s5)"
    and rp: "\<forall>w'. replay env post w' = Some w'"
    and s: "s = emits post (process_files env p opts files 0 files s5)"
    using reaches_loop [OF assms] by blast
  from process_files_replay [OF r5, of p opts files 0 files] rp show ?thesis
    by (simp add: s emits_def replay_append)
qed

text \<open>
  Claim C1. In a run that reaches the loop, the trace is what the collaborators really
  did: replayed against them from the starting world, every read, AI call and write
  returns or throws what the trace records, and the replay ends in the world the run
  ends in. On that trace, every error thrown by reading a file, by the
  AI client or by the markdown writer is caught in the iteration that raised it: the next
  thing the run does is to report, on \<open>console.error\<close>, the relative path of the file
  being processed and the message of the error (\<open>caught_locally\<close>); \<open>errorCount\<close> ends as
  the number of errors thrown; every discovered file is attempted, in order, whatever
  happened to the files before it; and whether \<open>analyzeCodebase\<close> returns or throws does
  not depend on any of these errors: it returns, unless \<open>path.resolve(options.output)\<close>
  of line 123 throws because the output option is not a string.
\<close>

theorem per_file_errors_caught_locally:
  assumes "p \<noteq> []" and "truthy (output_dir opts)"
    and "fs_existsSync env p w = (True, w1)"
    and "glob env (p @ ''/**/*.js'') w1 = (Inr files, w2)"
    and "files \<noteq> []"
    and "analyzeCodebase env (JStr p) (OptObj opts) w = (outcome, s)"
  shows "replay env (trace s) w = Some (world s) \<and>
         caught_locally env p [] None (trace s) \<and>
         errorCount s = length (failures (trace s)) \<and>
         attempted (trace s) = files \<and>
         outcome = (case path_resolve_js env (output_dir opts) of Inl e \<Rightarrow> Inl e | Inr d \<Rightarrow> Inr ())"
proof -
  obtain s5 post where q5: "list_all (\<lambda>ev. \<not> is_loop_event ev) (trace s5)"
    and qp: "list_all (\<lambda>ev. \<not> is_loop_event ev) post"
    and e5: "errorCount s5 = 0"
    and s: "s = emits post (process_files env p opts files 0 files s5)"
    and out: "outcome = (case path_resolve_js env (output_dir opts) of Inl e \<Rightarrow> Inl e | Inr d \<Rightarrow> Inr ())"
    using reaches_loop [OF assms] by blast
  let ?s6 = "process_files env p opts files 0 files s5"
  have "caught_locally env p [] None (trace s5)"
    using quiet_caught [OF q5] by blast
  then have c6: "caught_locally env p [] None (trace ?s6)"
    by (rule process_files_caught)
  have "caught_locally env p (foldl current_file [] (trace ?s6)) None post"
    using quiet_caught [OF qp] by blast
  with c6 have "caught_locally env p [] None (trace ?s6 @ post)"
    by (simp add: caught_locally_append)
  moreover have "errorCount ?s6 = length (failures (trace ?s6))"
    using process_files_failures [of env p opts files 0 files s5] e5 quiet_failures [OF q5] by simp
  moreover have "attempted (trace ?s6) = files"
    using quiet_attempted [OF q5] by (simp add: process_files_attempted)
  ultimately show ?thesis
    using out quiet_failures [OF qp] quiet_attempted [OF qp] reaches_loop_replay [OF assms]
    by (simp add: s emits_def proj_append)
qed


lemmas outer_defs = analyzeCodebase_def try_analyze_def catch_analyze_def call_def emits_def
  init_run_def Let_def

lemma ends_with_append: "ends_with (pre @ r) r"
  by (simp add: ends_with_def)


lemma run_invalid:
  "\<not> valid_arguments folderPath optionsArg \<Longrightarrow>
   analyzeCodebase env folderPath optionsArg w =
     (Inl (if \<not> truthy folderPath \<or> typeof folderPath \<noteq> ''string'' then new_Error ''Invalid folder path''
           else case bind_options optionsArg of
                  Inl e \<Rightarrow> e
                | Inr opts \<Rightarrow> new_Error ''Output directory must be specified''),
      init_run w)"
  by (auto simp add: analyzeCodebase_def valid_arguments_def split: sum.splits)

lemma run_folder_missing:
  assumes "truthy folderPath" and "typeof folderPath = ''string''"
    and "bind_options optionsArg = Inr opts" and "truthy (output_dir opts)"
    and "fs_existsSync env (string_of folderPath) w = (False, w1)"
  shows "analyzeCodebase env folderPath optionsArg w =
     (Inl (new_Error (''Folder does not exist: '' @ string_of folderPath)),
      \<lparr>successCount = 0, errorCount = 0,
       trace = [ExistsSync (string_of folderPath) False] @
               fatal_report opts (new_Error (''Folder does not exist: '' @ string_of folderPath)),
       world = w1\<rparr>)"
  using assms by (cases "truthy (verbose opts)") (simp_all add: outer_defs fatal_report_def)

lemma run_discovery_failed:
  assumes "truthy folderPath" and "typeof folderPath = ''string''"
    and "bind_options optionsArg = Inr opts" and "truthy (output_dir opts)"
    and "fs_existsSync env (string_of folderPath) w = (True, w1)"
    and "glob env (string_of folderPath @ ''/**/*.js'') w1 = (Inl e, w2)"
  shows "analyzeCodebase env folderPath optionsArg w =
     (Inl e,
      \<lparr>successCount = 0, errorCount = 0,
       trace = ([ExistsSync (string_of folderPath) True] @
                (if truthy (verbose opts)
                 then [ConsoleLog (MsgSearching (string_of folderPath @ ''/**/*.js''))] else []) @
                [Glob (string_of folderPath @ ''/**/*.js'') (Inl e)]) @ fatal_report opts e,
       world = w2\<rparr>)"
  using assms by (cases "truthy (verbose opts)") (simp_all add: outer_defs fatal_report_def)

lemma run_no_files:
  assumes "truthy folderPath" and "typeof folderPath = ''string''"
    and "bind_options optionsArg = Inr opts" and "truthy (output_dir opts)"
    and "fs_existsSync env (string_of folderPath) w = (True, w1)"
    and "glob env (string_of folderPath @ ''/**/*.js'') w1 = (Inr [], w2)"
  shows "analyzeCodebase env folderPath optionsArg w =
     (Inr (),
      \<lparr>successCount = 0, errorCount = 0,
       trace = [ExistsSync (string_of folderPath) True] @
               (if truthy (verbose opts)
                then [ConsoleLog (MsgSearching (string_of folderPath @ ''/**/*.js''))] else []) @
               [Glob (string_of folderPath @ ''/**/*.js'') (Inr []), ConsoleWarn MsgNoFiles] @
               (if truthy (verbose opts)
                then [ConsoleLog MsgHintPath, ConsoleLog (MsgHintCwd (process_cwd env))] else []),
       world = w2\<rparr>)"
  using assms by (cases "truthy (verbose opts)") (simp_all add: outer_defs)

text \<open>
  Claim C3. When discovery finds no file, the run warns that no JavaScript file was found
  and returns normally; it reads no file and calls neither the AI client nor the markdown
  writer.
\<close>

theorem no_files_is_not_an_error:
  assumes "p \<noteq> []" and "truthy (output_dir opts)"
    and "fs_existsSync env p w = (True, w1)"
    and "glob env (p @ ''/**/*.js'') w1 = (Inr [], w2)"
    and "analyzeCodebase env (JStr p) (OptObj opts) w = (outcome, s)"
  shows "outcome = Inr () \<and> ConsoleWarn MsgNoFiles \<in> set (trace s) \<and>
         filter uses_ai_or_writer (trace s) = [] \<and> attempted (trace s) = [] \<and> world s = w2"
  using run_no_files [of "JStr p" "OptObj opts" opts env w w1 w2] assms by auto

text \<open>
  Claim C4. When the folder path is falsy (the empty string is) or not a string, or the
  output option is falsy or cannot be read, \<open>analyzeCodebase\<close> throws, and it has done
  nothing before: the trace is empty, so nothing was discovered, read, sent or written and
  no summary was printed, and the world is as it was.
\<close>

theorem invalid_arguments_throw_at_once:
  assumes "\<not> valid_arguments folderPath optionsArg"
    and "analyzeCodebase env folderPath optionsArg w = (outcome, s)"
  shows "(outcome = Inl (new_Error ''Invalid folder path'') \<or>
          outcome = Inl null_property_error \<or>
          outcome = Inl (new_Error ''Output directory must be specified'')) \<and>
         trace s = [] \<and> world s = w"
  using run_invalid [OF assms(1), of env w] assms(2)
  by (cases optionsArg) (auto simp add: init_run_def split: if_splits)

text \<open>
  Claim C5. When the folder does not exist, \<open>analyzeCodebase\<close> throws
  \<open>Folder does not exist: ...\<close>; all it did was to test the folder and report the error,
  so it has read no file and called neither the AI client nor the markdown writer.
\<close>

theorem missing_folder_fails_fast:
  assumes "p \<noteq> []" and "truthy (output_dir opts)"
    and "fs_existsSync env p w = (False, w1)"
    and "analyzeCodebase env (JStr p) (OptObj opts) w = (outcome, s)"
  shows "outcome = Inl (new_Error (''Folder does not exist: '' @ p)) \<and>
         trace s = ExistsSync p False # fatal_report opts (new_Error (''Folder does not exist: '' @ p)) \<and>
         filter uses_ai_or_writer (trace s) = [] \<and> attempted (trace s) = [] \<and> world s = w1"
  using run_folder_missing [of "JStr p" "OptObj opts" opts env w w1] assms
  by (auto simp add: fatal_report_def)

text \<open>
  Claim C6, as amended. The two guards of lines 16 to 22 stand before the \<open>try\<close> block:
  an invalid folder path or a missing output option throws its error with nothing logged.
  A folder that does not exist, or an error thrown by the discovery, is inside it: the
  run throws that very error, and the last thing it did before was to report it
  (\<open>fatal_report\<close>).
\<close>

theorem fatal_errors_rethrown:
  assumes "analyzeCodebase env folderPath optionsArg w = (outcome, s)"
    and "fs_existsSync env (string_of folderPath) w = (exists, w1)"
    and "glob env (string_of folderPath @ ''/**/*.js'') w1 = (found, w2)"
    and "\<not> valid_arguments folderPath optionsArg \<or> \<not> exists \<or> found = Inl e"
  shows "if \<not> valid_arguments folderPath optionsArg
         then (outcome = Inl (new_Error ''Invalid folder path'') \<or>
               outcome = Inl null_property_error \<or>
               outcome = Inl (new_Error ''Output directory must be specified'')) \<and> trace s = []
         else \<exists>opts. bind_options optionsArg = Inr opts \<and>
                outcome = Inl (if exists then e
                               else new_Error (''Folder does not exist: '' @ string_of folderPath)) \<and>
                ends_with (trace s)
                  (fatal_report opts (if exists then e
                                      else new_Error (''Folder does not exist: '' @ string_of folderPath)))"
proof (cases "valid_arguments folderPath optionsArg")
  case False
  with run_invalid [OF False, of env w] assms(1) show ?thesis
    by (cases optionsArg) (auto simp add: init_run_def split: if_splits)
next
  case True
  then obtain opts where o: "bind_options optionsArg = Inr opts" and t: "truthy (output_dir opts)"
    and f: "truthy folderPath" "typeof folderPath = ''string''"
    by (auto simp add: valid_arguments_def split: sum.splits)
  let ?p = "string_of folderPath"
  let ?missing = "new_Error (''Folder does not exist: '' @ ?p)"
  show ?thesis
  proof (cases exists)
    case False
    with assms(2) have "fs_existsSync env ?p w = (False, w1)" by simp
    from run_folder_missing [OF f o t this] assms(1)
    have out: "outcome = Inl ?missing"
      and tr: "trace s = [ExistsSync ?p False] @ fatal_report opts ?missing"
      by auto
    have "ends_with (trace s) (fatal_report opts ?missing)"
      unfolding tr by (rule ends_with_append)
    with out o True False show ?thesis by simp
  next
    case ex: True
    with assms(4) \<open>valid_arguments folderPath optionsArg\<close> have g: "found = Inl e" by simp
    from ex assms(2) have x: "fs_existsSync env ?p w = (True, w1)" by simp
    from g assms(3) have y: "glob env (?p @ ''/**/*.js'') w1 = (Inl e, w2)" by simp
    from run_discovery_failed [OF f o t x y] assms(1)
    have out: "outcome = Inl e"
      and tr: "trace s = ([ExistsSync ?p True] @
             (if truthy (verbose opts) then [ConsoleLog (MsgSearching (?p @ ''/**/*.js''))] else []) @
             [Glob (?p @ ''/**/*.js'') (Inl e)]) @ fatal_report opts e"
      by auto
    have "ends_with (trace s) (fatal_report opts e)"
      unfolding tr by (rule ends_with_append)
    with out o True ex show ?thesis by simp
  qed
qed

text \<open>
  Claim C7. In a run that reaches the loop, the delays of the trace are delays taken:
  replayed from the starting world, with the timer asked to wait at each \<open>SetTimeout\<close>
  of the trace for the time recorded there and every other collaborator called as
  recorded, the trace ends in the world the run ends in. Over \<open>N\<close> files there are exactly
  \<open>N - 1\<close> delays, each of 500 ms, and the calls and delays of the run are: the calls of the first
  file, a delay, the calls of the second file, a delay, and so on, with no delay after the
  calls of the last file. A block of calls may end at a failed read, AI call or write,
  so the delay is taken after a file that failed as after one that succeeded.
\<close>

theorem delay_after_each_file_but_the_last:
  assumes "p \<noteq> []" and "truthy (output_dir opts)"
    and "fs_existsSync env p w = (True, w1)"
    and "glob env (p @ ''/**/*.js'') w1 = (Inr files, w2)"
    and "files \<noteq> []"
    and "analyzeCodebase env (JStr p) (OptObj opts) w = (outcome, s)"
  shows "replay env (trace s) w = Some (world s) \<and>
         delays (trace s) = replicate (length files - 1) 500 \<and>
         paced files (filter is_loop_event (trace s))"
proof -
  obtain s5 post where q5: "list_all (\<lambda>ev. \<not> is_loop_event ev) (trace s5)"
    and qp: "list_all (\<lambda>ev. \<not> is_loop_event ev) post"
    and s: "s = emits post (process_files env p opts files 0 files s5)"
    using reaches_loop [OF assms] by blast
  have f5: "filter is_loop_event (trace s5) = []" and fp: "filter is_loop_event post = []"
    using q5 qp by (simp_all add: list_all_iff filter_empty_conv)
  have "delays (trace s) = replicate (length files - 1) 500"
    using process_files_delays [of 0 files files env p opts s5] quiet_delays [OF q5] quiet_delays [OF qp]
    by (simp add: s emits_def proj_append)
  moreover obtain new where "filter is_loop_event (trace (process_files env p opts files 0 files s5)) =
      filter is_loop_event (trace s5) @ new" and "paced files new"
    using process_files_paced [of 0 files files env p opts s5] by auto
  then have "paced files (filter is_loop_event (trace s))"
    using f5 fp by (simp add: s emits_def)
  ultimately show ?thesis
    using reaches_loop_replay [OF assms] by simp
qed


text \<open>
  Claim C9. In a run that reaches the loop, the calls of the trace are the calls made, in
  the order they were made, each on the world the call before it left: replayed from the
  starting world in the order of the trace, every call returns what the trace records and
  the replay ends in the world the run ends in. The calls made on files are one block per
  discovered file, in discovery order: the read of the file, then the AI call if the read
  succeeded, then the write of what the AI call returned if it succeeded. The calls of a
  file all come before the calls of the next, and none is interleaved with another file's.
\<close>

theorem files_processed_one_after_another:
  assumes "p \<noteq> []" and "truthy (output_dir opts)"
    and "fs_existsSync env p w = (True, w1)"
    and "glob env (p @ ''/**/*.js'') w1 = (Inr files, w2)"
    and "files \<noteq> []"
    and "analyzeCodebase env (JStr p) (OptObj opts) w = (outcome, s)"
  shows "replay env (trace s) w = Some (world s) \<and>
         sequential files (filter is_file_call (trace s))"
proof -
  obtain s5 post where q5: "list_all (\<lambda>ev. \<not> is_loop_event ev) (trace s5)"
    and qp: "list_all (\<lambda>ev. \<not> is_loop_event ev) post"
    and s: "s = emits post (process_files env p opts files 0 files s5)"
    using reaches_loop [OF assms] by blast
  obtain new where "filter is_file_call (trace (process_files env p opts files 0 files s5)) =
      filter is_file_call (trace s5) @ new" and "sequential files new"
    using process_files_sequential [of env p opts files 0 files s5] by auto
  then show ?thesis
    using quiet_file_calls [OF q5] quiet_file_calls [OF qp] reaches_loop_replay [OF assms]
    by (simp add: s emits_def)
qed

lemma try_file_model: "try_file env (opts\<lparr>model := m\<rparr>) rel progress f s = try_file env opts rel progress f s"
  by (simp add: try_file_def cong: sum.case_cong if_cong)

lemma loop_body_model:
  "loop_body env fp (opts\<lparr>model := m\<rparr>) files index f s = loop_body env fp opts files index f s"
  by (simp add: loop_body_def process_file_def try_file_model catch_file_def cong: sum.case_cong)

lemma process_files_model:
  "process_files env fp (opts\<lparr>model := m\<rparr>) files index rest s = process_files env fp opts files index rest s"
  by (induction rest arbitrary: index s) (simp_all add: loop_body_model)

text \<open>
  Claim C10. The \<open>model\<close> option is never read: two calls that differ in it alone have
  the same outcome, the same trace, the same counters and leave the same world.
\<close>

theorem model_option_has_no_effect:
  "analyzeCodebase env folderPath (OptObj (opts\<lparr>model := m\<rparr>)) w =
   analyzeCodebase env folderPath (OptObj opts) w"
  by (simp add: analyzeCodebase_def try_analyze_def catch_analyze_def process_files_model
           cong: sum.case_cong if_cong)

section \<open>The properties on the concrete environment\<close>

lemma demo_src:
  "fs_existsSync demo_env ''src'' w = (True, w)"
  "glob demo_env (''src'' @ ''/**/*.js'') w = (Inr demo_files, w)"
  "truthy (output_dir demo_options)"
  "demo_files \<noteq> []"
  by (simp_all add: demo_env_def demo_options_def demo_files_def)

lemma demo_failed:
  "analyzeCodebase demo_env (JStr ''src'') (OptObj demo_options) 0 = (Inr (), demo_failed_run)"
  apply (simp add: outer_defs demo_env_def demo_options_def del: process_files.simps)
  apply (simp only: process_files.simps)
  apply (simp add: loop_defs demo_failed_run_def)
  done


lemma demo_empty:
  "analyzeCodebase demo_env (JStr ''empty'') (OptObj demo_options) 0 = (Inr (), demo_empty_run)"
  by (simp add: outer_defs demo_env_def demo_options_def demo_empty_run_def)

lemma demo_locked:
  "analyzeCodebase demo_env (JStr ''locked'') (OptObj demo_options) 0 =
     (Inl (JsError ''Error'' ''EACCES: permission denied''), demo_locked_run)"
  by (simp add: outer_defs demo_env_def demo_options_def demo_locked_run_def)

lemma demo_missing:
  "analyzeCodebase demo_env (JStr ''nowhere'') (OptObj demo_options) 0 =
     (Inl (new_Error ''Folder does not exist: nowhere''), demo_missing_run)"
  by (simp add: outer_defs demo_env_def demo_options_def demo_missing_run_def new_Error_def)

lemma probe_src:
  "fs_existsSync probe_env ''src'' w = (True, w)"
  "glob probe_env (''src'' @ ''/**/*.js'') w = (Inr demo_files, w)"
  by (simp_all add: probe_env_def demo_files_def)

lemma probe_ran:
  "analyzeCodebase probe_env (JStr ''src'') (OptObj demo_options) probe_start = (Inr (), probe_run)"
  apply (simp add: outer_defs probe_env_def probe_start_def demo_options_def del: process_files.simps)
  apply (simp only: process_files.simps)
  apply (simp add: loop_defs probe_run_def)
  done

theorem per_file_errors_caught_locally_witness:
  "''src'' \<noteq> [] \<and> truthy (output_dir demo_options) \<and>
   fs_existsSync probe_env ''src'' probe_start = (True, probe_start) \<and>
   glob probe_env (''src'' @ ''/**/*.js'') probe_start = (Inr demo_files, probe_start) \<and>
   demo_files \<noteq> [] \<and>
   analyzeCodebase probe_env (JStr ''src'') (OptObj demo_options) probe_start = (Inr (), probe_run) \<and>
   replay probe_env (trace probe_run) probe_start = Some (world probe_run) \<and>
   failures (trace probe_run) =
     [JsError ''Error'' ''quota exceeded'', JsError ''Error'' ''EACCES: permission denied''] \<and>
   caught_locally probe_env ''src'' [] None (trace probe_run) \<and>
   errorCount probe_run = length (failures (trace probe_run)) \<and>
   attempted (trace probe_run) = demo_files \<and>
   Inr () = (case path_resolve_js probe_env (output_dir demo_options) of
               Inl e \<Rightarrow> Inl e | Inr d \<Rightarrow> Inr ())"
proof -
  have h: "''src'' \<noteq> []" by simp
  have f: "failures (trace probe_run) =
      [JsError ''Error'' ''quota exceeded'', JsError ''Error'' ''EACCES: permission denied'']"
    by (simp add: probe_run_def)
  from per_file_errors_caught_locally
         [OF h demo_src(3) probe_src(1) probe_src(2) demo_src(4) probe_ran]
    h f probe_src(1) [of probe_start] probe_src(2) [of probe_start] demo_src(3) demo_src(4) probe_ran
  show ?thesis by blast
qed


theorem no_files_is_not_an_error_witness:
  "''empty'' \<noteq> [] \<and> truthy (output_dir demo_options) \<and>
   fs_existsSync demo_env ''empty'' 0 = (True, 0) \<and>
   glob demo_env (''empty'' @ ''/**/*.js'') 0 = (Inr [], 0) \<and>
   analyzeCodebase demo_env (JStr ''empty'') (OptObj demo_options) 0 = (Inr (), demo_empty_run) \<and>
   ConsoleWarn MsgNoFiles \<in> set (trace demo_empty_run) \<and>
   filter uses_ai_or_writer (trace demo_empty_run) = [] \<and>
   attempted (trace demo_empty_run) = [] \<and> world demo_empty_run = 0"
proof -
  have h: "''empty'' \<noteq> []" by simp
  have e: "fs_existsSync demo_env ''empty'' 0 = (True, 0)"
    and g: "glob demo_env (''empty'' @ ''/**/*.js'') 0 = (Inr [], 0)"
    by (simp_all add: demo_env_def)
  from no_files_is_not_an_error [OF h demo_src(3) e g demo_empty] h e g demo_src(3) demo_empty
  show ?thesis by blast
qed

theorem invalid_arguments_throw_at_once_witness:
  "\<not> valid_arguments (JStr []) (OptObj demo_options) \<and>
   analyzeCodebase demo_env (JStr []) (OptObj demo_options) 0 =
     (Inl (new_Error ''Invalid folder path''), init_run 0) \<and>
   trace (init_run (0::nat)) = [] \<and> world (init_run (0::nat)) = 0"
proof -
  have v: "\<not> valid_arguments (JStr []) (OptObj demo_options)"
    by (simp add: valid_arguments_def)
  have r: "analyzeCodebase demo_env (JStr []) (OptObj demo_options) 0 =
      (Inl (new_Error ''Invalid folder path''), init_run 0)"
    by (simp add: analyzeCodebase_def)
  from invalid_arguments_throw_at_once [OF v r] v r show ?thesis by blast
qed

theorem missing_folder_fails_fast_witness:
  "''nowhere'' \<noteq> [] \<and> truthy (output_dir demo_options) \<and>
   fs_existsSync demo_env ''nowhere'' 0 = (False, 0) \<and>
   analyzeCodebase demo_env (JStr ''nowhere'') (OptObj demo_options) 0 =
     (Inl (new_Error ''Folder does not exist: nowhere''), demo_missing_run) \<and>
   new_Error ''Folder does not exist: nowhere'' = new_Error (''Folder does not exist: '' @ ''nowhere'') \<and>
   trace demo_missing_run =
     ExistsSync ''nowhere'' False #
     fatal_report demo_options (new_Error (''Folder does not exist: '' @ ''nowhere'')) \<and>
   filter uses_ai_or_writer (trace demo_missing_run) = [] \<and>
   attempted (trace demo_missing_run) = [] \<and> world demo_missing_run = 0"
proof -
  have h: "''nowhere'' \<noteq> []" by simp
  have e: "fs_existsSync demo_env ''nowhere'' 0 = (False, 0)"
    by (simp add: demo_env_def)
  from missing_folder_fails_fast [OF h demo_src(3) e demo_missing] h e demo_src(3) demo_missing
  show ?thesis by blast
qed

theorem fatal_errors_rethrown_witness:
  "analyzeCodebase demo_env (JStr ''locked'') (OptObj demo_options) 0 =
     (Inl (JsError ''Error'' ''EACCES: permission denied''), demo_locked_run) \<and>
   fs_existsSync demo_env (string_of (JStr ''locked'')) 0 = (True, 0) \<and>
   glob demo_env (string_of (JStr ''locked'') @ ''/**/*.js'') 0 =
     (Inl (JsError ''Error'' ''EACCES: permission denied''), 0) \<and>
   valid_arguments (JStr ''locked'') (OptObj demo_options) \<and>
   ends_with (trace demo_locked_run)
     (fatal_report demo_options (JsError ''Error'' ''EACCES: permission denied''))"
proof -
  let ?e = "JsError ''Error'' ''EACCES: permission denied''"
  have x: "fs_existsSync demo_env (string_of (JStr ''locked'')) 0 = (True, 0)"
    and g: "glob demo_env (string_of (JStr ''locked'') @ ''/**/*.js'') 0 = (Inl ?e, 0)"
    by (simp_all add: demo_env_def)
  have v: "valid_arguments (JStr ''locked'') (OptObj demo_options)"
    by (simp add: valid_arguments_def demo_options_def)
  have d: "\<not> valid_arguments (JStr ''locked'') (OptObj demo_options) \<or> \<not> True \<or>
      (Inl ?e :: js_error + string list) = Inl ?e"
    by simp
  from fatal_errors_rethrown [OF demo_locked x g d] v
  have "ends_with (trace demo_locked_run) (fatal_report demo_options ?e)"
    by simp
  with demo_locked x g v show ?thesis by blast
qed

text \<open>
  Claim C6 as it was stated fails: with no options at all, the call throws
  \<open>Output directory must be specified\<close> and has printed nothing, so the error was not
  logged before it was raised.
\<close>

theorem validation_error_not_logged:
  "fst (analyzeCodebase demo_env (JStr ''src'') OptUndefined 0) =
     Inl (new_Error ''Output directory must be specified'') \<and>
   ConsoleError (MsgAnalysisFailed ''Output directory must be specified'')
     \<notin> set (trace (snd (analyzeCodebase demo_env (JStr ''src'') OptUndefined 0))) \<and>
   trace (snd (analyzeCodebase demo_env (JStr ''src'') OptUndefined 0)) = []"
  by (simp add: analyzeCodebase_def empty_options_def init_run_def)

theorem delay_after_each_file_but_the_last_witness:
  "''src'' \<noteq> [] \<and> truthy (output_dir demo_options) \<and>
   fs_existsSync probe_env ''src'' probe_start = (True, probe_start) \<and>
   glob probe_env (''src'' @ ''/**/*.js'') probe_start = (Inr demo_files, probe_start) \<and>
   demo_files \<noteq> [] \<and>
   analyzeCodebase probe_env (JStr ''src'') (OptObj demo_options) probe_start = (Inr (), probe_run) \<and>
   replay probe_env (trace probe_run) probe_start = Some (world probe_run) \<and>
   elapsed (world probe_run) = 1000 \<and>
   delays (trace probe_run) = replicate (length demo_files - 1) 500 \<and>
   paced demo_files (filter is_loop_event (trace probe_run))"
proof -
  have h: "''src'' \<noteq> []" by simp
  have t: "elapsed (world probe_run) = 1000"
    by (simp add: probe_run_def)
  from delay_after_each_file_but_the_last
         [OF h demo_src(3) probe_src(1) probe_src(2) demo_src(4) probe_ran]
    h t probe_src(1) [of probe_start] probe_src(2) [of probe_start] demo_src(3) demo_src(4) probe_ran
  show ?thesis by blast
qed


theorem files_processed_one_after_another_witness:
  "''src'' \<noteq> [] \<and> truthy (output_dir demo_options) \<and>
   fs_existsSync probe_env ''src'' probe_start = (True, probe_start) \<and>
   glob probe_env (''src'' @ ''/**/*.js'') probe_start = (Inr demo_files, probe_start) \<and>
   demo_files \<noteq> [] \<and>
   analyzeCodebase probe_env (JStr ''src'') (OptObj demo_options) probe_start = (Inr (), probe_run) \<and>
   replay probe_env (trace probe_run) probe_start = Some (world probe_run) \<and>
   ai_calls (world probe_run) = 3 \<and>
   sequential demo_files (filter is_file_call (trace probe_run))"
proof -
  have h: "''src'' \<noteq> []" by simp
  have c: "ai_calls (world probe_run) = 3"
    by (simp add: probe_run_def)
  from files_processed_one_after_another
         [OF h demo_src(3) probe_src(1) probe_src(2) demo_src(4) probe_ran]
    h c probe_src(1) [of probe_start] probe_src(2) [of probe_start] demo_src(3) demo_src(4) probe_ran
  show ?thesis by blast
qed

theorem model_option_has_no_effect_witness:
  "analyzeCodebase demo_env (JStr ''src'') (OptObj (demo_options\<lparr>model := JStr ''other''\<rparr>)) 0 =
     (Inr (), demo_failed_run) \<and>
   analyzeCodebase demo_env (JStr ''src'') (OptObj demo_options) 0 = (Inr (), demo_failed_run)"
  using model_option_has_no_effect
          [where env = demo_env and folderPath = "JStr ''src''" and opts = demo_options
             and m = "JStr ''other''" and w = 0]
        demo_failed
  by simp

end
